theory Spec2Isabelle
  imports Complex_Main
begin

section \<open>JavaScript values\<close>

text \<open>
  A JavaScript string is a sequence of UTF-16 code units and \<open>s.length\<close> counts them, so
  a string is modelled as the list of its code units, each given by its number. \<open>u\<close>
  embeds an ASCII literal. A \<open>number\<close> is a real or \<open>NaN\<close>; floating-point rounding is
  not modelled.
\<close>

type_synonym jsstring = "nat list"

definition u :: "string \<Rightarrow> jsstring" where
  "u s = map of_char s"

datatype jsnum = NaN | Num real

section \<open>whatsapp.types: errors\<close>

datatype WhatsAppErrorType =
  AUTH_ERROR | RATE_LIMIT | INVALID_RECIPIENT | NETWORK_ERROR
  | VALIDATION_ERROR | QUOTA_EXCEEDED | UNKNOWN_ERROR

text \<open>The fields of \<open>WhatsAppServiceError\<close>; an omitted constructor argument is \<open>None\<close>.\<close>

record WhatsAppError =
  err_message :: jsstring
  err_type :: WhatsAppErrorType
  err_retryAfter :: "jsnum option"
  err_httpStatus :: "int option"
  err_dealId :: "jsstring option"
  err_recipient :: "jsstring option"

text \<open>
  What a \<open>throw\<close> or a rejected promise can carry in this subsystem: a
  \<open>WhatsAppServiceError\<close> (or one of its subclasses), the breaker's
  \<open>CircuitBreakerOpenError\<close> with its message and \<open>nextAttemptTime\<close>, or any other
  \<open>Error\<close> object, of which only \<open>code\<close> and \<open>message\<close> are read.
\<close>

datatype thrown =
  ServiceError WhatsAppError
  | CircuitBreakerOpenError jsstring int
  | OtherError "jsstring option" jsstring

section \<open>The world outside the service\<close>

text \<open>
  The request handed to \<open>fetch\<close> by \<open>makeApiCall\<close>: the URL, the bearer token and the
  two variable fields of the JSON body.
\<close>

record ApiRequest =
  req_url :: jsstring
  req_token :: jsstring
  req_to :: jsstring
  req_body :: jsstring

text \<open>
  \<open>clock\<close> is what \<open>Date.now()\<close> returns (milliseconds), \<open>rand_used\<close> counts the calls of
  \<open>Math.random()\<close>, \<open>sent\<close> logs every request handed to \<open>fetch\<close>, and \<open>timers\<close> logs
  every delay handed to \<open>setTimeout\<close>.
\<close>

record world =
  clock :: int
  rand_used :: nat
  sent :: "ApiRequest list"
  timers :: "real list"

section \<open>circuit-breaker: WhatsAppCircuitBreaker\<close>

datatype breaker_state = CLOSED | OPEN | HALF_OPEN

record CircuitBreakerConfig =
  failureThreshold :: nat
  timeoutMs :: int
  monitoringWindowMs :: int
  minimumRequestThreshold :: nat

definition default_breaker_config :: CircuitBreakerConfig where
  "default_breaker_config =
     \<lparr>failureThreshold = 10, timeoutMs = 300000,
      monitoringWindowMs = 60000, minimumRequestThreshold = 5\<rparr>"

record breaker =
  state :: breaker_state
  failures :: nat
  successes :: nat
  requests :: nat
  lastFailureTime :: int
  stateChangedAt :: int

text \<open>The field initialisers of the class, for a breaker constructed at time \<open>t0\<close>.\<close>

definition new_breaker :: "int \<Rightarrow> breaker" where
  "new_breaker t0 =
     \<lparr>state = CLOSED, failures = 0, successes = 0, requests = 0,
      lastFailureTime = 0, stateChangedAt = t0\<rparr>"

definition transitionTo :: "breaker_state \<Rightarrow> int \<Rightarrow> breaker \<Rightarrow> breaker" where
  "transitionTo newState now b = b\<lparr>state := newState, stateChangedAt := now\<rparr>"

definition resetCounters :: "breaker \<Rightarrow> breaker" where
  "resetCounters b = b\<lparr>failures := 0, successes := 0, requests := 0\<rparr>"

definition cleanOldMetrics :: "breaker \<Rightarrow> breaker" where
  "cleanOldMetrics b = (if requests b > 1000 then resetCounters b else b)"

definition onSuccess :: "int \<Rightarrow> breaker \<Rightarrow> breaker" where
  "onSuccess now b =
     (let b1 = b\<lparr>successes := successes b + 1, requests := requests b + 1\<rparr>;
          b2 = (if state b1 = HALF_OPEN
                then resetCounters (transitionTo CLOSED now b1) else b1)
      in cleanOldMetrics b2)"

definition onFailure :: "CircuitBreakerConfig \<Rightarrow> int \<Rightarrow> breaker \<Rightarrow> breaker" where
  "onFailure cfg now b =
     (let b1 = b\<lparr>failures := failures b + 1, requests := requests b + 1,
                 lastFailureTime := now\<rparr>;
          b2 = (if state b1 = HALF_OPEN then transitionTo OPEN now b1
                else if state b1 = CLOSED \<and> failures b1 \<ge> failureThreshold cfg
                then transitionTo OPEN now b1
                else b1)
      in cleanOldMetrics b2)"

definition shouldAttemptReset :: "CircuitBreakerConfig \<Rightarrow> int \<Rightarrow> breaker \<Rightarrow> bool" where
  "shouldAttemptReset cfg now b \<longleftrightarrow> now - lastFailureTime b \<ge> timeoutMs cfg"

definition getNextAttemptTime :: "CircuitBreakerConfig \<Rightarrow> breaker \<Rightarrow> int" where
  "getNextAttemptTime cfg b = lastFailureTime b + timeoutMs cfg"

text \<open>
  The \<open>try\<close>/\<open>catch\<close> of \<open>execute\<close>: the operation runs once on the world; the clock is
  read again when it has settled.
\<close>

definition run_operation ::
  "CircuitBreakerConfig \<Rightarrow> (world \<Rightarrow> (thrown + 'a) \<times> world) \<Rightarrow> breaker \<times> world
     \<Rightarrow> (thrown + 'a) \<times> breaker \<times> world" where
  "run_operation cfg operation bw =
     (case operation (snd bw) of
        (Inr result, w') \<Rightarrow> (Inr result, onSuccess (clock w') (fst bw), w')
      | (Inl error, w') \<Rightarrow> (Inl error, onFailure cfg (clock w') (fst bw), w'))"

definition execute ::
  "CircuitBreakerConfig \<Rightarrow> (world \<Rightarrow> (thrown + 'a) \<times> world) \<Rightarrow> breaker \<times> world
     \<Rightarrow> (thrown + 'a) \<times> breaker \<times> world" where
  "execute cfg operation bw =
     (let b = fst bw; w = snd bw in
      if state b = OPEN then
        if shouldAttemptReset cfg (clock w) b
        then run_operation cfg operation (transitionTo HALF_OPEN (clock w) b, w)
        else (Inl (CircuitBreakerOpenError
                     (u ''Circuit breaker is OPEN - WhatsApp service unavailable'')
                     (getNextAttemptTime cfg b)), b, w)
      else run_operation cfg operation (b, w))"





definition world_at :: "int \<Rightarrow> world" where
  "world_at t = \<lparr>clock = t, rand_used = 0, sent = [], timers = []\<rparr>"




section \<open>rate-limiter: WhatsAppRateLimiter\<close>

record RateLimiterConfig =
  maxRequestsPerMinute :: nat
  windowMs :: int
  jitter :: bool

definition default_limiter_config :: RateLimiterConfig where
  "default_limiter_config =
     \<lparr>maxRequestsPerMinute = 80, windowMs = 60000, jitter = True\<rparr>"

datatype rate_level = ok | warning | limited

record RateLimitStatus =
  current :: rate_level
  remaining :: int
  resetTime :: int
  waitTime :: "int option"

text \<open>
  The limiter's only mutable field is \<open>requests\<close>, the tracked timestamps, oldest first.
  The functions below take it and return it updated.
\<close>

definition cleanOldRequests :: "RateLimiterConfig \<Rightarrow> int \<Rightarrow> int list \<Rightarrow> int list" where
  "cleanOldRequests cfg now reqs = filter (\<lambda>req. req > now - windowMs cfg) reqs"

definition getStatus :: "RateLimiterConfig \<Rightarrow> int \<Rightarrow> int list \<Rightarrow> RateLimitStatus \<times> int list" where
  "getStatus cfg now reqs =
     (let reqs' = cleanOldRequests cfg now reqs;
          remaining = int (maxRequestsPerMinute cfg) - int (length reqs');
          resetTime = now + windowMs cfg
      in if remaining \<le> 0 then
           (let waitTime = (case reqs' of
                              [] \<Rightarrow> windowMs cfg
                            | oldestRequest # _ \<Rightarrow> windowMs cfg - (now - oldestRequest))
            in (\<lparr>current = limited, remaining = 0, resetTime = resetTime,
                  waitTime = Some (max 0 waitTime)\<rparr>, reqs'))
         else if remaining \<le> 5 then
           (\<lparr>current = warning, remaining = remaining, resetTime = resetTime,
              waitTime = None\<rparr>, reqs')
         else
           (\<lparr>current = ok, remaining = remaining, resetTime = resetTime,
              waitTime = None\<rparr>, reqs'))"

text \<open>\<open>slice(-n)\<close> keeps the last \<open>n\<close> elements, and all of them when \<open>n\<close> is 0.\<close>

definition slice_last :: "nat \<Rightarrow> 'a list \<Rightarrow> 'a list" where
  "slice_last n xs = (if n = 0 then xs else drop (length xs - n) xs)"

definition recordRequest :: "RateLimiterConfig \<Rightarrow> int \<Rightarrow> int list \<Rightarrow> int list" where
  "recordRequest cfg now reqs =
     (let reqs' = reqs @ [now]
      in if length reqs' > maxRequestsPerMinute cfg * 2
         then slice_last (maxRequestsPerMinute cfg) reqs' else reqs')"

text \<open>
  The delay that \<open>wait(ms)\<close> hands to \<open>setTimeout\<close>, where \<open>r\<close> is what \<open>Math.random()\<close>
  returns if it is called.
\<close>

definition wait_delay :: "RateLimiterConfig \<Rightarrow> real \<Rightarrow> int \<Rightarrow> real" where
  "wait_delay cfg r ms =
     (let waitTime = real_of_int ms;
          waitTime' = (if jitter cfg \<and> waitTime > 1000
                       then waitTime + r * min (waitTime * 0.1) 5000 else waitTime)
      in max 0 waitTime')"

text \<open>
  \<open>wait\<close> in the world: \<open>rnd n\<close> is the \<open>n\<close>-th value of \<open>Math.random()\<close>; the timer is
  logged and the caller resumes when it is due.
\<close>

definition wait :: "RateLimiterConfig \<Rightarrow> (nat \<Rightarrow> real) \<Rightarrow> int \<Rightarrow> world \<Rightarrow> world" where
  "wait cfg rnd ms w =
     (let d = wait_delay cfg (rnd (rand_used w)) ms;
          used = (if jitter cfg \<and> real_of_int ms > 1000
                  then rand_used w + 1 else rand_used w)
      in w\<lparr>clock := clock w + \<lfloor>d\<rfloor>, rand_used := used, timers := timers w @ [d]\<rparr>)"

text \<open>\<open>status.waitTime || 0\<close>: an absent or zero wait time is 0.\<close>

definition waitTime_or_0 :: "RateLimitStatus \<Rightarrow> int" where
  "waitTime_or_0 status = (case waitTime status of None \<Rightarrow> 0 | Some t \<Rightarrow> t)"

definition waitIfNeeded ::
  "RateLimiterConfig \<Rightarrow> (nat \<Rightarrow> real) \<Rightarrow> int list \<times> world \<Rightarrow> int \<times> int list \<times> world" where
  "waitIfNeeded cfg rnd rw =
     (let w = snd rw;
          status = fst (getStatus cfg (clock w) (fst rw));
          reqs = snd (getStatus cfg (clock w) (fst rw))
      in if current status = limited
         then (waitTime_or_0 status, reqs, wait cfg rnd (waitTime_or_0 status) w)
         else (0, recordRequest cfg (clock w) reqs, w))"

text \<open>
  A run of calls on one limiter, each made in its own world (calls overlap in time: a
  sleeping caller does not hold back the next one). Every call is logged with the world
  and window it found and what it returned and left behind.
\<close>

record limiter_call =
  call_world :: world
  window_before :: "int list"
  returned :: int
  window_after :: "int list"
  world_after :: world

fun waitIfNeeded_seq ::
  "RateLimiterConfig \<Rightarrow> (nat \<Rightarrow> real) \<Rightarrow> world list \<Rightarrow> int list \<Rightarrow> limiter_call list" where
  "waitIfNeeded_seq cfg rnd [] reqs = []"
| "waitIfNeeded_seq cfg rnd (w # ws) reqs =
     \<lparr>call_world = w, window_before = reqs,
      returned = fst (waitIfNeeded cfg rnd (reqs, w)),
      window_after = fst (snd (waitIfNeeded cfg rnd (reqs, w))),
      world_after = snd (snd (waitIfNeeded cfg rnd (reqs, w)))\<rparr>
     # waitIfNeeded_seq cfg rnd ws (fst (snd (waitIfNeeded cfg rnd (reqs, w))))"

text \<open>A call proceeds at once when it returns 0 without touching the world (no timer).\<close>

definition proceeds_at_once :: "limiter_call \<Rightarrow> bool" where
  "proceeds_at_once c \<longleftrightarrow> returned c = 0 \<and> world_after c = call_world c"

definition reported_limited :: "RateLimiterConfig \<Rightarrow> limiter_call \<Rightarrow> bool" where
  "reported_limited cfg c \<longleftrightarrow>
     current (fst (getStatus cfg (clock (call_world c)) (window_before c))) = limited"

text \<open>
  A call is delayed when it has set one timer, of at least the positive wait time it
  returns.
\<close>

definition delayed :: "limiter_call \<Rightarrow> bool" where
  "delayed c \<longleftrightarrow>
     returned c > 0
     \<and> timers (world_after c) \<noteq> []
     \<and> butlast (timers (world_after c)) = timers (call_world c)
     \<and> last (timers (world_after c)) \<ge> real_of_int (returned c)
     \<and> clock (world_after c) \<ge> clock (call_world c) + returned c"

definition permitted_or_delayed :: "RateLimiterConfig \<Rightarrow> limiter_call \<Rightarrow> bool" where
  "permitted_or_delayed cfg c \<longleftrightarrow>
     (if reported_limited cfg c then delayed c \<and> \<not> proceeds_at_once c
      else proceeds_at_once c)"

text \<open>All calls lie in a time span shorter than \<open>windowMs\<close>.\<close>

definition within_span :: "int \<Rightarrow> world list \<Rightarrow> bool" where
  "within_span W ws \<longleftrightarrow> list_all (\<lambda>w. list_all (\<lambda>w'. clock w' - clock w < W) ws) ws"

text \<open>A tracked timestamp survives a run of calls when no call of the run discards it.\<close>

definition survives :: "int \<Rightarrow> world list \<Rightarrow> int \<Rightarrow> bool" where
  "survives W ws r \<longleftrightarrow> list_all (\<lambda>w. r > clock w - W) ws"

text \<open>\<open>Math.random()\<close> returns a number in \<open>[0, 1)\<close>.\<close>

definition unit_interval :: "(nat \<Rightarrow> real) \<Rightarrow> bool" where
  "unit_interval rnd \<longleftrightarrow> (\<forall>n. 0 \<le> rnd n \<and> rnd n < 1)"

text \<open>Fixtures: a limiter of two requests per minute without jitter, and a random source.\<close>

definition two_per_minute :: RateLimiterConfig where
  "two_per_minute = \<lparr>maxRequestsPerMinute = 2, windowMs = 60000, jitter = False\<rparr>"

definition half :: "nat \<Rightarrow> real" where
  "half n = 1 / 2"

section \<open>whatsapp.types: configuration, deals and results\<close>

datatype RecipientRole = accounts | logistics | boss1 | bossog

text \<open>
  \<open>WhatsAppConfig\<close>, with the nested \<open>features\<close> and \<open>settings\<close> objects flattened.
  \<open>recipients\<close> has exactly the four role keys, so it is a function of the role.
\<close>

record WhatsAppConfig =
  apiToken :: jsstring
  apiUrl :: jsstring
  phoneNumberId :: jsstring
  recipients :: "RecipientRole \<Rightarrow> jsstring"
  messagingEnabled :: bool
  rateLimitEnabled :: bool
  retryEnabled :: bool
  maxRetries :: int
  retryDelays :: "int list"
  circuitBreakerThreshold :: int

datatype DeliveryTerms = delivered | ex_warehouse

datatype MaterialSource = new_material | from_inventory

text \<open>
  \<open>DealData\<close>. A \<open>Date\<close> is its time value, \<open>None\<close> for an invalid date; an optional
  field is \<open>None\<close> when it is \<open>undefined\<close>.
\<close>

record DealData =
  deal_id :: jsstring
  deal_date :: "int option"
  saleParty :: jsstring
  quantitySold :: jsnum
  saleRate :: jsnum
  deliveryTerms :: DeliveryTerms
  saleComments :: "jsstring option"
  productCode :: jsstring
  product :: "jsstring option"
  grade :: "jsstring option"
  company :: "jsstring option"
  specificGrade :: "jsstring option"
  materialSource :: MaterialSource
  purchaseParty :: "jsstring option"
  quantityPurchased :: "jsnum option"
  purchaseRate :: "jsnum option"
  warehouseLocation :: "jsstring option"
  purchaseComments :: "jsstring option"
  finalComments :: "jsstring option"

record SendMessageResult =
  success :: bool
  messageId :: "jsstring option"
  externalMessageId :: "jsstring option"
  error :: "WhatsAppError option"
  recipient :: jsstring
  role :: RecipientRole

record BulkSendResult =
  dealId :: jsstring
  results :: "SendMessageResult list"
  successCount :: nat
  failureCount :: nat
  errors :: "WhatsAppError list"

text \<open>
  \<open>WhatsAppResponse\<close> as \<open>response.json()\<close> yields it, unchecked: \<open>Response ids\<close> has a
  \<open>messages\<close> array whose entries have the given \<open>id\<close>s (\<open>None\<close> where an entry has
  none); \<open>Malformed m\<close> has no \<open>messages\<close> array, so that reading \<open>messages[0]\<close> throws
  a \<open>TypeError\<close> of message \<open>m\<close>.
\<close>

datatype WhatsAppResponse = Response "jsstring option list" | Malformed jsstring

text \<open>
  What \<open>fetch\<close> resolves with: the status, the \<open>Retry-After\<close> header, the body as
  \<open>text()\<close> gives it and as \<open>json()\<close> gives it (\<open>Inl m\<close>: a \<open>SyntaxError\<close> of message \<open>m\<close>).
\<close>

record HttpResponse =
  status :: int
  retryAfterHeader :: "jsstring option"
  bodyText :: jsstring
  bodyJson :: "jsstring + WhatsAppResponse"

text \<open>\<open>fetch\<close> rejects with an error of the given \<open>code\<close> and \<open>message\<close>, or resolves.\<close>

datatype fetch_outcome = Rejects "jsstring option" jsstring | Responds HttpResponse

text \<open>
  The platform and the downstream, as parameters: the answer of \<open>fetch\<close> to a request in
  a world, the values of \<open>Math.random()\<close>, whether \<open>WHATSAPP_SIMULATE_ERRORS\<close> is
  \<open>'true'\<close>, \<open>parseInt\<close>, the conversion of a number to a string in a template
  literal, and the three \<open>Intl\<close> formatters of the message templates.
\<close>

record env =
  fetch :: "world \<Rightarrow> ApiRequest \<Rightarrow> fetch_outcome"
  random :: "nat \<Rightarrow> real"
  simulateErrors :: bool
  parseInt :: "jsstring \<Rightarrow> jsnum"
  numberToString :: "jsnum \<Rightarrow> jsstring"
  intlCurrency :: "jsnum \<Rightarrow> jsstring"
  intlNumber :: "jsnum \<Rightarrow> jsstring"
  intlDate :: "int \<Rightarrow> jsstring"

section \<open>whatsapp.types: error classes\<close>

definition WhatsAppServiceError ::
  "jsstring \<Rightarrow> WhatsAppErrorType \<Rightarrow> jsnum option \<Rightarrow> int option \<Rightarrow> jsstring option
     \<Rightarrow> jsstring option \<Rightarrow> WhatsAppError" where
  "WhatsAppServiceError msg type retryAfter httpStatus deal rcpt =
     \<lparr>err_message = msg, err_type = type, err_retryAfter = retryAfter,
      err_httpStatus = httpStatus, err_dealId = deal, err_recipient = rcpt\<rparr>"

definition WhatsAppAuthError :: "jsstring \<Rightarrow> jsstring option \<Rightarrow> WhatsAppError" where
  "WhatsAppAuthError msg deal =
     WhatsAppServiceError msg AUTH_ERROR None (Some 401) deal None"

definition WhatsAppRateLimitError ::
  "env \<Rightarrow> jsnum \<Rightarrow> jsstring option \<Rightarrow> jsstring option \<Rightarrow> WhatsAppError" where
  "WhatsAppRateLimitError env retryAfter deal rcpt =
     WhatsAppServiceError
       (u ''Rate limit exceeded, retry after '' @ numberToString env retryAfter @ u ''s'')
       RATE_LIMIT (Some retryAfter) (Some 429) deal rcpt"

definition WhatsAppNetworkError :: "jsstring \<Rightarrow> jsstring option \<Rightarrow> WhatsAppError" where
  "WhatsAppNetworkError msg deal =
     WhatsAppServiceError msg NETWORK_ERROR None None deal None"

definition WhatsAppValidationError ::
  "jsstring \<Rightarrow> jsstring option \<Rightarrow> jsstring option \<Rightarrow> WhatsAppError" where
  "WhatsAppValidationError msg deal rcpt =
     WhatsAppServiceError msg VALIDATION_ERROR None (Some 400) deal rcpt"

section \<open>whatsapp.service: WhatsAppService\<close>

text \<open>
  The service owns its configuration, a rate limiter and a circuit breaker. Its methods
  take the service and the world and return both updated.
\<close>

record WhatsAppService =
  config :: WhatsAppConfig
  rateLimiterConfig :: RateLimiterConfig
  rateLimiter :: "int list"
  circuitBreakerConfig :: CircuitBreakerConfig
  circuitBreaker :: breaker

text \<open>The constructor called with a configuration only, at time \<open>t0\<close>.\<close>

definition new_service :: "WhatsAppConfig \<Rightarrow> int \<Rightarrow> WhatsAppService" where
  "new_service cfg t0 =
     \<lparr>config = cfg, rateLimiterConfig = default_limiter_config, rateLimiter = [],
      circuitBreakerConfig = default_breaker_config, circuitBreaker = new_breaker t0\<rparr>"

definition startsWith :: "jsstring \<Rightarrow> jsstring \<Rightarrow> bool" where
  "startsWith s p \<longleftrightarrow> take (length p) s = p"

definition validateInputs :: "jsstring \<Rightarrow> jsstring \<Rightarrow> thrown + unit" where
  "validateInputs phoneNumber msg =
     (if phoneNumber = [] then
        Inl (ServiceError (WhatsAppValidationError (u ''Phone number is required'') None None))
      else if \<not> startsWith phoneNumber (u ''+'') then
        Inl (ServiceError (WhatsAppValidationError
               (u ''Phone number must start with country code (+)'') None None))
      else if length phoneNumber < 10 \<or> length phoneNumber > 16 then
        Inl (ServiceError (WhatsAppValidationError (u ''Invalid phone number length'') None None))
      else if msg = [] then
        Inl (ServiceError (WhatsAppValidationError (u ''Message text is required'') None None))
      else if length msg > 4096 then
        Inl (ServiceError (WhatsAppValidationError
               (u ''Message text too long (max 4096 characters)'') None None))
      else Inr ())"

text \<open>\<open>handleApiError\<close> always throws; the model returns what it throws.\<close>

definition handleApiError :: "env \<Rightarrow> HttpResponse \<Rightarrow> thrown" where
  "handleApiError env response =
     (let statusCode = status response; errorText = bodyText response in
      if statusCode = 401 then
        ServiceError (WhatsAppAuthError (u ''Invalid or expired access token'') None)
      else if statusCode = 429 then
        (let retryAfter = parseInt env
               (case retryAfterHeader response of
                  None \<Rightarrow> u ''60''
                | Some h \<Rightarrow> if h = [] then u ''60'' else h)
         in ServiceError (WhatsAppRateLimitError env retryAfter None None))
      else if statusCode = 400 then
        ServiceError (WhatsAppValidationError (u ''Bad request: '' @ errorText) None None)
      else if statusCode = 500 \<or> statusCode = 502 \<or> statusCode = 503 \<or> statusCode = 504 then
        ServiceError (WhatsAppNetworkError
          (u ''Server error: '' @ numberToString env (Num (of_int statusCode)) @ u '' ''
             @ errorText) None)
      else
        ServiceError (WhatsAppServiceError
          (u ''API error: '' @ numberToString env (Num (of_int statusCode)) @ u '' ''
             @ errorText) UNKNOWN_ERROR None (Some statusCode) None None))"

definition handleError :: "thrown \<Rightarrow> jsstring option \<Rightarrow> jsstring option \<Rightarrow> WhatsAppError" where
  "handleError err deal rcpt =
     (case err of
        ServiceError e \<Rightarrow> e
      | CircuitBreakerOpenError m nextAttemptTime \<Rightarrow>
          WhatsAppServiceError (u ''Service temporarily unavailable (circuit breaker open)'')
            NETWORK_ERROR None (Some 503) deal rcpt
      | OtherError code m \<Rightarrow>
          if code = Some (u ''ECONNREFUSED'') \<or> code = Some (u ''ETIMEDOUT'')
          then WhatsAppNetworkError (u ''Cannot reach WhatsApp API'') deal
          else WhatsAppServiceError (if m = [] then u ''Unknown WhatsApp error'' else m)
                 UNKNOWN_ERROR None None deal rcpt)"

text \<open>
  \<open>simulateRandomError\<close>: what it throws, if anything. An index outside the table calls
  \<open>undefined\<close>, a \<open>TypeError\<close>.
\<close>

definition simulateRandomError :: "env \<Rightarrow> world \<Rightarrow> thrown option \<times> world" where
  "simulateRandomError env w =
     (let r = random env (rand_used w); w1 = w\<lparr>rand_used := rand_used w + 1\<rparr> in
      if r < 0.1 then
        (let r2 = random env (rand_used w1); w2 = w1\<lparr>rand_used := rand_used w1 + 1\<rparr>;
             i = \<lfloor>r2 * 4\<rfloor>
         in (Some (if i = 0 then ServiceError (WhatsAppRateLimitError env (Num 60) None None)
                   else if i = 1 then
                     ServiceError (WhatsAppNetworkError (u ''Simulated network error'') None)
                   else if i = 2 then
                     ServiceError (WhatsAppAuthError (u ''Simulated auth error'') None)
                   else if i = 3 then
                     ServiceError (WhatsAppValidationError
                                     (u ''Simulated validation error'') None None)
                   else OtherError None (u ''randomError is not a function'')), w2))
      else (None, w1))"

definition response_ok :: "HttpResponse \<Rightarrow> bool" where
  "response_ok response \<longleftrightarrow> 200 \<le> status response \<and> status response \<le> 299"

definition api_request :: "WhatsAppConfig \<Rightarrow> jsstring \<Rightarrow> jsstring \<Rightarrow> ApiRequest" where
  "api_request cfg phoneNumber msg =
     \<lparr>req_url = apiUrl cfg @ u ''/'' @ phoneNumberId cfg @ u ''/messages'',
      req_token = apiToken cfg, req_to = phoneNumber, req_body = msg\<rparr>"

definition makeApiCall ::
  "env \<Rightarrow> WhatsAppConfig \<Rightarrow> jsstring \<Rightarrow> jsstring \<Rightarrow> world
     \<Rightarrow> (thrown + WhatsAppResponse) \<times> world" where
  "makeApiCall env cfg phoneNumber msg w =
     (case (if simulateErrors env then simulateRandomError env w else (None, w)) of
        (Some e, w1) \<Rightarrow> (Inl e, w1)
      | (None, w1) \<Rightarrow>
          (let request = api_request cfg phoneNumber msg;
               w2 = w1\<lparr>sent := sent w1 @ [request]\<rparr>
           in case fetch env w1 request of
                Rejects code m \<Rightarrow> (Inl (OtherError code m), w2)
              | Responds response \<Rightarrow>
                  if \<not> response_ok response then (Inl (handleApiError env response), w2)
                  else (case bodyJson response of
                          Inl m \<Rightarrow> (Inl (OtherError None m), w2)
                        | Inr parsed \<Rightarrow> (Inr parsed, w2))))"

text \<open>\<open>role || 'accounts'\<close>.\<close>

definition role_or_accounts :: "RecipientRole option \<Rightarrow> RecipientRole" where
  "role_or_accounts r = (case r of None \<Rightarrow> accounts | Some x \<Rightarrow> x)"

text \<open>
  The \<open>try\<close> block of \<open>sendMessage\<close>: \<open>Inl\<close> is what it throws. Reading
  \<open>response.messages[0]?.id\<close> throws on a response without \<open>messages\<close> and yields
  \<open>undefined\<close> on an empty array.
\<close>

definition sendMessage_try ::
  "env \<Rightarrow> WhatsAppService \<times> world \<Rightarrow> jsstring \<Rightarrow> jsstring \<Rightarrow> jsstring option
     \<Rightarrow> RecipientRole option \<Rightarrow> (thrown + SendMessageResult) \<times> WhatsAppService \<times> world" where
  "sendMessage_try env sw phoneNumber msg deal r =
     (let svc = fst sw; w = snd sw in
      if \<not> messagingEnabled (config svc) then
        (Inl (ServiceError (WhatsAppValidationError (u ''WhatsApp messaging is disabled'')
                              deal (Some phoneNumber))), svc, w)
      else
        (case validateInputs phoneNumber msg of
           Inl e \<Rightarrow> (Inl e, svc, w)
         | Inr _ \<Rightarrow>
             (let lim = waitIfNeeded (rateLimiterConfig svc) (random env) (rateLimiter svc, w);
                  svc1 = svc\<lparr>rateLimiter := fst (snd lim)\<rparr>;
                  w1 = snd (snd lim);
                  ex = execute (circuitBreakerConfig svc1)
                         (makeApiCall env (config svc1) phoneNumber msg)
                         (circuitBreaker svc1, w1);
                  svc2 = svc1\<lparr>circuitBreaker := fst (snd ex)\<rparr>;
                  w2 = snd (snd ex)
              in case fst ex of
                   Inl e \<Rightarrow> (Inl e, svc2, w2)
                 | Inr (Malformed m) \<Rightarrow> (Inl (OtherError None m), svc2, w2)
                 | Inr (Response ids) \<Rightarrow>
                     (Inr \<lparr>success = True,
                           messageId = Some (u ''whatsapp-''
                                               @ numberToString env (Num (of_int (clock w2)))),
                           externalMessageId = (case ids of [] \<Rightarrow> None | i # _ \<Rightarrow> i),
                           error = None, recipient = phoneNumber,
                           role = role_or_accounts r\<rparr>, svc2, w2))))"

text \<open>\<open>sendMessage\<close>: the \<open>catch\<close> block turns whatever was thrown into a failed result.\<close>

definition sendMessage ::
  "env \<Rightarrow> WhatsAppService \<times> world \<Rightarrow> jsstring \<Rightarrow> jsstring \<Rightarrow> jsstring option
     \<Rightarrow> RecipientRole option \<Rightarrow> SendMessageResult \<times> WhatsAppService \<times> world" where
  "sendMessage env sw phoneNumber msg deal r =
     (case sendMessage_try env sw phoneNumber msg deal r of
        (Inr res, svc, w) \<Rightarrow> (res, svc, w)
      | (Inl e, svc, w) \<Rightarrow>
          (\<lparr>success = False, messageId = None, externalMessageId = None,
            error = Some (handleError e deal (Some phoneNumber)),
            recipient = phoneNumber, role = role_or_accounts r\<rparr>, svc, w))"

section \<open>message-templates\<close>

subsection \<open>JavaScript operators used by the templates\<close>

text \<open>Truthiness of an optional string and of an optional number.\<close>

definition truthy_str :: "jsstring option \<Rightarrow> bool" where
  "truthy_str s = (case s of None \<Rightarrow> False | Some x \<Rightarrow> x \<noteq> [])"

definition truthy_num :: "jsnum option \<Rightarrow> bool" where
  "truthy_num n = (case n of None \<Rightarrow> False | Some NaN \<Rightarrow> False | Some (Num x) \<Rightarrow> x \<noteq> 0)"

text \<open>An optional value inside a template literal or handed to a number formatter.\<close>

definition str_of :: "jsstring option \<Rightarrow> jsstring" where
  "str_of s = (case s of None \<Rightarrow> u ''undefined'' | Some x \<Rightarrow> x)"

definition num_of :: "jsnum option \<Rightarrow> jsnum" where
  "num_of n = (case n of None \<Rightarrow> NaN | Some x \<Rightarrow> x)"

text \<open>\<open>n || 0\<close>.\<close>

definition num_or_0 :: "jsnum option \<Rightarrow> jsnum" where
  "num_or_0 n = (if truthy_num n then num_of n else Num 0)"

text \<open>
  Arithmetic and comparison with \<open>NaN\<close>. Division is only used with a divisor that is
  not 0; the infinities are not modelled.
\<close>

fun js_times :: "jsnum \<Rightarrow> jsnum \<Rightarrow> jsnum" where
  "js_times (Num a) (Num b) = Num (a * b)"
| "js_times _ _ = NaN"

fun js_minus :: "jsnum \<Rightarrow> jsnum \<Rightarrow> jsnum" where
  "js_minus (Num a) (Num b) = Num (a - b)"
| "js_minus _ _ = NaN"

fun js_divide :: "jsnum \<Rightarrow> jsnum \<Rightarrow> jsnum" where
  "js_divide (Num a) (Num b) = (if b = 0 then NaN else Num (a / b))"
| "js_divide _ _ = NaN"

fun js_greater :: "jsnum \<Rightarrow> jsnum \<Rightarrow> bool" where
  "js_greater (Num a) (Num b) \<longleftrightarrow> a > b"
| "js_greater _ _ \<longleftrightarrow> False"

fun js_greater_eq :: "jsnum \<Rightarrow> jsnum \<Rightarrow> bool" where
  "js_greater_eq (Num a) (Num b) \<longleftrightarrow> a \<ge> b"
| "js_greater_eq _ _ \<longleftrightarrow> False"

fun js_less_eq :: "jsnum \<Rightarrow> jsnum \<Rightarrow> bool" where
  "js_less_eq (Num a) (Num b) \<longleftrightarrow> a \<le> b"
| "js_less_eq _ _ \<longleftrightarrow> False"

fun Math_round :: "jsnum \<Rightarrow> jsnum" where
  "Math_round (Num a) = Num (of_int \<lfloor>a + 1 / 2\<rfloor>)"
| "Math_round NaN = NaN"

subsection \<open>Formatting helpers\<close>

definition formatCurrency :: "env \<Rightarrow> jsnum \<Rightarrow> jsstring" where
  "formatCurrency env amount = intlCurrency env amount"

definition formatNumber :: "env \<Rightarrow> jsnum \<Rightarrow> jsstring" where
  "formatNumber env num = intlNumber env num"

text \<open>\<open>Intl.DateTimeFormat.format\<close> throws a \<open>RangeError\<close> on an invalid date.\<close>

definition formatDate :: "env \<Rightarrow> int option \<Rightarrow> thrown + jsstring" where
  "formatDate env d =
     (case d of
        None \<Rightarrow> Inl (OtherError None (u ''Invalid time value''))
      | Some t \<Rightarrow> Inr (intlDate env t))"

record DealMetrics =
  saleAmount :: jsnum
  purchaseAmount :: jsnum
  grossProfit :: jsnum
  profitMargin :: jsnum

definition calculateDealMetrics :: "DealData \<Rightarrow> DealMetrics" where
  "calculateDealMetrics deal =
     (let saleAmount = js_times (quantitySold deal) (saleRate deal);
          purchaseAmount = js_times (num_or_0 (quantityPurchased deal))
                                    (num_or_0 (purchaseRate deal));
          grossProfit = js_minus saleAmount purchaseAmount;
          profitMargin = (if js_greater saleAmount (Num 0)
                          then js_times (js_divide grossProfit saleAmount) (Num 100)
                          else Num 0)
      in \<lparr>saleAmount = saleAmount, purchaseAmount = purchaseAmount,
           grossProfit = grossProfit,
           profitMargin = js_divide (Math_round (js_times profitMargin (Num 100))) (Num 100)\<rparr>)"

definition getProductDisplay :: "DealData \<Rightarrow> jsstring" where
  "getProductDisplay deal =
     (if truthy_str (product deal) \<and> truthy_str (grade deal) \<and> truthy_str (company deal)
      then str_of (product deal) @ u '' - '' @ str_of (grade deal) @ u '' (''
             @ str_of (company deal) @ u '')''
      else if productCode deal \<noteq> [] then productCode deal
      else u ''Product details pending'')"

subsection \<open>The four templates\<close>

text \<open>
  Each template is the concatenation the source builds, piece by piece; a character
  outside ASCII is written as its UTF-16 code units. A template throws what \<open>formatDate\<close>
  throws.
\<close>

definition accountsTemplate :: "env \<Rightarrow> DealData \<Rightarrow> thrown + jsstring" where
  "accountsTemplate env deal =
     (let metrics = calculateDealMetrics deal; productDisplay = getProductDisplay deal in
      case formatDate env (deal_date deal) of
        Inl e \<Rightarrow> Inl e
      | Inr formattedDate \<Rightarrow> Inr (
          [0xD83C, 0xDFE6] @ u '' NEW DEAL REGISTERED\<newline>\<newline>Deal ID: '' @ deal_id deal
          @ u ''\<newline>Date: '' @ formattedDate
          @ u ''\<newline>Customer: '' @ saleParty deal
          @ u ''\<newline>\<newline>'' @ [0xD83D, 0xDCB0] @ u '' FINANCIAL DETAILS:\<newline>Sale: ''
          @ formatNumber env (quantitySold deal)
          @ u ''kg '' @ [0x00D7] @ u '' '' @ formatCurrency env (saleRate deal)
          @ u ''/kg = '' @ formatCurrency env (saleAmount metrics)
          @ (if materialSource deal = new_material \<and> truthy_str (purchaseParty deal)
                \<and> truthy_num (quantityPurchased deal) \<and> truthy_num (purchaseRate deal)
             then u ''\<newline>Purchase: '' @ formatNumber env (num_of (quantityPurchased deal))
                  @ u ''kg '' @ [0x00D7] @ u '' ''
                  @ formatCurrency env (num_of (purchaseRate deal))
                  @ u ''/kg = '' @ formatCurrency env (purchaseAmount metrics)
                  @ u ''\<newline>Gross Profit: '' @ formatCurrency env (grossProfit metrics)
                  @ u '' ('' @ numberToString env (profitMargin metrics) @ u ''%)''
             else [])
          @ u ''\<newline>\<newline>'' @ [0xD83D, 0xDCE6] @ u '' PRODUCT DETAILS:\<newline>''
          @ productDisplay
          @ u ''\<newline>Delivery: ''
          @ (if deliveryTerms deal = delivered then u ''Delivered''
             else u ''Ex-Warehouse (Pickup)'')
          @ u ''\<newline>Source: ''
          @ (if materialSource deal = new_material then u ''New Purchase''
             else u ''From Inventory'')
          @ (if truthy_str (purchaseParty deal)
             then u ''\<newline>Supplier: '' @ str_of (purchaseParty deal) else [])
          @ (if truthy_str (saleComments deal)
             then u ''\<newline>\<newline>'' @ [0xD83D, 0xDCAC] @ u '' SALE NOTES:\<newline>''
                  @ str_of (saleComments deal)
             else [])
          @ (if truthy_str (purchaseComments deal)
             then u ''\<newline>\<newline>'' @ [0xD83D, 0xDCAC] @ u '' PURCHASE NOTES:\<newline>''
                  @ str_of (purchaseComments deal)
             else [])
          @ u ''\<newline>\<newline>'' @ [0xD83D, 0xDCCB]
          @ u '' ACTION REQUIRED:\<newline>- Verify payment terms with customer\<newline>- Coordinate with logistics for delivery\<newline>- Update accounting records\<newline>\<newline>---\<newline>Polymer Trading System''))"

definition logisticsTemplate :: "env \<Rightarrow> DealData \<Rightarrow> thrown + jsstring" where
  "logisticsTemplate env deal =
     (let productDisplay = getProductDisplay deal in
      case formatDate env (deal_date deal) of
        Inl e \<Rightarrow> Inl e
      | Inr formattedDate \<Rightarrow> Inr (
          [0xD83D, 0xDE9A] @ u '' DELIVERY COORDINATION REQUIRED\<newline>\<newline>Deal ID: ''
          @ deal_id deal
          @ u ''\<newline>Customer: '' @ saleParty deal
          @ u ''\<newline>Date: '' @ formattedDate
          @ u ''\<newline>\<newline>'' @ [0xD83D, 0xDCE6] @ u '' LOGISTICS DETAILS:\<newline>Quantity: ''
          @ formatNumber env (quantitySold deal)
          @ u ''kg\<newline>Product: '' @ productDisplay
          @ u ''\<newline>Delivery: ''
          @ (if deliveryTerms deal = delivered then u ''DELIVERY REQUIRED''
             else u ''CUSTOMER PICKUP'')
          @ u ''\<newline>Source: ''
          @ (if materialSource deal = new_material then u ''New Purchase''
             else u ''Warehouse Stock'')
          @ (if truthy_str (warehouseLocation deal)
             then u ''\<newline>Warehouse: '' @ str_of (warehouseLocation deal) else [])
          @ (if materialSource deal = new_material \<and> truthy_str (purchaseParty deal)
             then u ''\<newline>\<newline>'' @ [0xD83D, 0xDD04] @ u '' COORDINATION NEEDED:\<newline>Supplier: ''
                  @ str_of (purchaseParty deal)
                  @ u ''\<newline>Purchase Qty: ''
                  @ formatNumber env (num_or_0 (quantityPurchased deal))
                  @ u ''kg\<newline>\<newline>TASKS:\<newline>- Coordinate supplier pickup/delivery\<newline>- Schedule customer delivery\<newline>- Ensure quantity matching\<newline>- Quality check on receipt''
             else u ''\<newline>\<newline>'' @ [0xD83D, 0xDCCB]
                  @ u '' INVENTORY DISPATCH:\<newline>- Verify stock availability\<newline>- Prepare material for dispatch\<newline>- ''
                  @ (if deliveryTerms deal = delivered then u ''Schedule delivery to customer''
                     else u ''Notify customer for pickup''))
          @ (if truthy_str (finalComments deal)
             then u ''\<newline>\<newline>'' @ [0x26A0, 0xFE0F] @ u '' SPECIAL INSTRUCTIONS:\<newline>''
                  @ str_of (finalComments deal)
             else [])
          @ u ''\<newline>\<newline>'' @ [0xD83D, 0xDCDE]
          @ u '' CONTACTS:\<newline>- Customer coordination required\<newline>- Update accounts team on delivery status\<newline>\<newline>---\<newline>Polymer Trading System''))"

definition boss1Template :: "env \<Rightarrow> DealData \<Rightarrow> thrown + jsstring" where
  "boss1Template env deal =
     (let metrics = calculateDealMetrics deal; productDisplay = getProductDisplay deal in
      case formatDate env (deal_date deal) of
        Inl e \<Rightarrow> Inl e
      | Inr formattedDate \<Rightarrow> Inr (
          [0xD83D, 0xDCCA] @ u '' DEAL SUMMARY - BOSS 1\<newline>\<newline>Deal ID: '' @ deal_id deal
          @ u ''\<newline>Customer: '' @ saleParty deal
          @ u ''\<newline>Product: '' @ productDisplay
          @ u ''\<newline>\<newline>'' @ [0xD83D, 0xDCB5] @ u '' PROFIT ANALYSIS:\<newline>Revenue: ''
          @ formatCurrency env (saleAmount metrics)
          @ u ''\<newline>''
          @ (if materialSource deal = new_material
                \<and> js_greater (purchaseAmount metrics) (Num 0)
             then u ''Cost: '' @ formatCurrency env (purchaseAmount metrics)
                  @ u ''\<newline>Profit: '' @ formatCurrency env (grossProfit metrics)
                  @ u '' ('' @ numberToString env (profitMargin metrics) @ u ''%)''
             else u ''Cost: From inventory (TBD)'')
          @ u ''\<newline>\<newline>'' @ [0xD83D, 0xDCC8] @ u '' DEAL METRICS:\<newline>Volume: ''
          @ formatNumber env (quantitySold deal)
          @ u ''kg\<newline>Rate: '' @ formatCurrency env (saleRate deal)
          @ u ''/kg\<newline>Source: ''
          @ (if materialSource deal = new_material then u ''New Purchase'' else u ''Inventory'')
          @ (if truthy_str (purchaseParty deal)
             then u ''\<newline>Supplier: '' @ str_of (purchaseParty deal) else [])
          @ u ''\<newline>\<newline>'' @ [0xD83C, 0xDFAF] @ u '' STATUS:\<newline>Date: '' @ formattedDate
          @ u ''\<newline>Delivery: ''
          @ (if deliveryTerms deal = delivered then u ''Delivery'' else u ''Pickup'')
          @ u ''\<newline>Processing: In progress\<newline>\<newline>'' @ [0xD83D, 0xDCDE]
          @ u '' TEAMS NOTIFIED:\<newline>- Accounts team (financial processing)\<newline>- Logistics team (coordination)\<newline>\<newline>---\<newline>Polymer Trading System''))"

definition bossOGTemplate :: "env \<Rightarrow> DealData \<Rightarrow> thrown + jsstring" where
  "bossOGTemplate env deal =
     (let metrics = calculateDealMetrics deal; productDisplay = getProductDisplay deal in
      case formatDate env (deal_date deal) of
        Inl e \<Rightarrow> Inl e
      | Inr formattedDate \<Rightarrow> Inr (
          [0xD83D, 0xDC51] @ u '' DEAL ALERT - BOSS OG\<newline>\<newline>Deal ID: '' @ deal_id deal
          @ u ''\<newline>Customer: '' @ saleParty deal
          @ u ''\<newline>\<newline>'' @ [0xD83D, 0xDCB0] @ u '' QUICK OVERVIEW:\<newline>Volume: ''
          @ formatNumber env (quantitySold deal)
          @ u ''kg\<newline>Revenue: '' @ formatCurrency env (saleAmount metrics)
          @ (if materialSource deal = new_material
                \<and> js_greater (purchaseAmount metrics) (Num 0)
             then (let marginStatus =
                         (if js_greater_eq (profitMargin metrics) (Num 15)
                          then [0xD83D, 0xDFE2]
                          else if js_greater_eq (profitMargin metrics) (Num 10)
                          then [0xD83D, 0xDFE1]
                          else [0xD83D, 0xDD34])
                   in u ''\<newline>Profit: '' @ formatCurrency env (grossProfit metrics)
                      @ u '' '' @ marginStatus
                      @ u ''\<newline>Margin: '' @ numberToString env (profitMargin metrics)
                      @ u ''%'')
             else [])
          @ u ''\<newline>\<newline>'' @ [0xD83D, 0xDCCB] @ u '' DETAILS:\<newline>Product: ''
          @ productDisplay
          @ u ''\<newline>Date: '' @ formattedDate
          @ u ''\<newline>Source: ''
          @ (if materialSource deal = new_material then u ''Purchase'' else u ''Stock'')
          @ (if truthy_str (purchaseParty deal)
             then u ''\<newline>Supplier: '' @ str_of (purchaseParty deal) else [])
          @ u ''\<newline>\<newline>'' @ [0x26A1] @ u '' STATUS: Processing\<newline>''
          @ [0xD83D, 0xDCF1]
          @ u '' Teams coordinating delivery\<newline>\<newline>---\<newline>Polymer Trading System''))"

text \<open>\<open>getMessageTemplate\<close> finds a template for each of the four roles.\<close>

fun generateMessage :: "env \<Rightarrow> RecipientRole \<Rightarrow> DealData \<Rightarrow> thrown + jsstring" where
  "generateMessage env accounts deal = accountsTemplate env deal"
| "generateMessage env logistics deal = logisticsTemplate env deal"
| "generateMessage env boss1 deal = boss1Template env deal"
| "generateMessage env bossog deal = bossOGTemplate env deal"

section \<open>whatsapp.service: sendDealNotifications\<close>

text \<open>\<open>Object.entries(this.config.recipients)\<close>: the four roles in the order of their keys.\<close>

definition recipient_entries :: "WhatsAppConfig \<Rightarrow> (RecipientRole \<times> jsstring) list" where
  "recipient_entries cfg = map (\<lambda>r. (r, recipients cfg r)) [accounts, logistics, boss1, bossog]"

definition failed_result :: "WhatsAppError \<Rightarrow> jsstring \<Rightarrow> RecipientRole \<Rightarrow> SendMessageResult" where
  "failed_result whatsappError phoneNumber r =
     \<lparr>success = False, messageId = None, externalMessageId = None,
      error = Some whatsappError, recipient = phoneNumber, role = r\<rparr>"

text \<open>
  One role's send: the body of the \<open>map\<close> callback, pushing to \<open>results\<close> and \<open>errors\<close>.
\<close>

definition send_to_role ::
  "env \<Rightarrow> DealData \<Rightarrow> RecipientRole \<times> jsstring
     \<Rightarrow> (SendMessageResult list \<times> WhatsAppError list) \<times> WhatsAppService \<times> world
     \<Rightarrow> (SendMessageResult list \<times> WhatsAppError list) \<times> WhatsAppService \<times> world" where
  "send_to_role env deal entry acc =
     (let r = fst entry; phoneNumber = snd entry;
          rs = fst (fst acc); es = snd (fst acc); sw = snd acc in
      case generateMessage env r deal of
        Inl e \<Rightarrow>
          (let whatsappError = handleError e (Some (deal_id deal)) (Some phoneNumber)
           in ((rs @ [failed_result whatsappError phoneNumber r], es @ [whatsappError]), sw))
      | Inr msg \<Rightarrow>
          (let sent_result = sendMessage env sw phoneNumber msg (Some (deal_id deal)) (Some r);
               res = fst sent_result
           in ((rs @ [res],
                (case error res of
                   Some e \<Rightarrow> if \<not> success res then es @ [e] else es
                 | None \<Rightarrow> es)),
               snd sent_result)))"

text \<open>
  The sends are started in the order of the entries and awaited together. The model
  runs them one after another in that order, each to completion, on the shared limiter
  and breaker; a downstream call takes no time.
\<close>

fun send_to_roles ::
  "env \<Rightarrow> DealData \<Rightarrow> (RecipientRole \<times> jsstring) list
     \<Rightarrow> (SendMessageResult list \<times> WhatsAppError list) \<times> WhatsAppService \<times> world
     \<Rightarrow> (SendMessageResult list \<times> WhatsAppError list) \<times> WhatsAppService \<times> world" where
  "send_to_roles env deal [] acc = acc"
| "send_to_roles env deal (entry # rest) acc =
     send_to_roles env deal rest (send_to_role env deal entry acc)"

definition failed :: "SendMessageResult \<Rightarrow> bool" where
  "failed r \<longleftrightarrow> \<not> success r"

definition sendDealNotifications ::
  "env \<Rightarrow> WhatsAppService \<times> world \<Rightarrow> DealData
     \<Rightarrow> BulkSendResult \<times> WhatsAppService \<times> world" where
  "sendDealNotifications env sw deal =
     (let done = send_to_roles env deal (recipient_entries (config (fst sw))) (([], []), sw);
          rs = fst (fst done)
      in (\<lparr>dealId = deal_id deal, results = rs,
            successCount = length (filter success rs),
            failureCount = length (filter failed rs),
            errors = snd (fst done)\<rparr>, snd done))"

section \<open>message-templates: validation and previews\<close>

text \<open>\<open>Partial<DealData>\<close>: every field may be absent.\<close>

record PartialDealData =
  p_id :: "jsstring option"
  p_date :: "int option option"
  p_saleParty :: "jsstring option"
  p_quantitySold :: "jsnum option"
  p_saleRate :: "jsnum option"
  p_deliveryTerms :: "DeliveryTerms option"
  p_saleComments :: "jsstring option"
  p_productCode :: "jsstring option"
  p_product :: "jsstring option"
  p_grade :: "jsstring option"
  p_company :: "jsstring option"
  p_specificGrade :: "jsstring option"
  p_materialSource :: "MaterialSource option"
  p_purchaseParty :: "jsstring option"
  p_quantityPurchased :: "jsnum option"
  p_purchaseRate :: "jsnum option"
  p_warehouseLocation :: "jsstring option"
  p_purchaseComments :: "jsstring option"
  p_finalComments :: "jsstring option"

text \<open>A \<open>DealData\<close> read as a \<open>Partial<DealData>\<close>.\<close>

definition as_partial :: "DealData \<Rightarrow> PartialDealData" where
  "as_partial deal =
     \<lparr>p_id = Some (deal_id deal), p_date = Some (deal_date deal),
      p_saleParty = Some (saleParty deal), p_quantitySold = Some (quantitySold deal),
      p_saleRate = Some (saleRate deal), p_deliveryTerms = Some (deliveryTerms deal),
      p_saleComments = saleComments deal, p_productCode = Some (productCode deal),
      p_product = product deal, p_grade = grade deal, p_company = company deal,
      p_specificGrade = specificGrade deal, p_materialSource = Some (materialSource deal),
      p_purchaseParty = purchaseParty deal, p_quantityPurchased = quantityPurchased deal,
      p_purchaseRate = purchaseRate deal, p_warehouseLocation = warehouseLocation deal,
      p_purchaseComments = purchaseComments deal, p_finalComments = finalComments deal\<rparr>"

text \<open>\<open>!n || n <= 0\<close> for an optional number.\<close>

definition missing_or_not_positive :: "jsnum option \<Rightarrow> bool" where
  "missing_or_not_positive n \<longleftrightarrow> \<not> truthy_num n \<or> js_less_eq (num_of n) (Num 0)"

text \<open>\<open>errors.push(m)\<close> when the condition holds.\<close>

definition push_if :: "bool \<Rightarrow> jsstring \<Rightarrow> jsstring list \<Rightarrow> jsstring list" where
  "push_if c m es = (if c then es @ [m] else es)"

definition validateDealForMessaging :: "PartialDealData \<Rightarrow> jsstring list" where
  "validateDealForMessaging deal =
     (let e1 = push_if (\<not> truthy_str (p_id deal)) (u ''Deal ID is required'') [];
          e2 = push_if (p_date deal = None) (u ''Deal date is required'') e1;
          e3 = push_if (\<not> truthy_str (p_saleParty deal))
                 (u ''Sale party (customer) is required'') e2;
          e4 = push_if (missing_or_not_positive (p_quantitySold deal))
                 (u ''Quantity sold must be positive'') e3;
          e5 = push_if (missing_or_not_positive (p_saleRate deal))
                 (u ''Sale rate must be positive'') e4;
          e6 = push_if (p_deliveryTerms deal = None) (u ''Delivery terms are required'') e5;
          e7 = push_if (\<not> truthy_str (p_productCode deal)) (u ''Product code is required'') e6;
          e8 = push_if (p_materialSource deal = None) (u ''Material source is required'') e7
      in if p_materialSource deal = Some new_material then
           (let e9 = push_if (\<not> truthy_str (p_purchaseParty deal))
                       (u ''Purchase party is required for new material'') e8;
                e10 = push_if (missing_or_not_positive (p_quantityPurchased deal))
                        (u ''Purchase quantity is required for new material'') e9
            in push_if (missing_or_not_positive (p_purchaseRate deal))
                 (u ''Purchase rate is required for new material'') e10)
         else e8)"

text \<open>\<open>Array.prototype.join\<close>.\<close>

fun join :: "jsstring \<Rightarrow> jsstring list \<Rightarrow> jsstring" where
  "join sep [] = []"
| "join sep [x] = x"
| "join sep (x # y # ys) = x @ sep @ join sep (y # ys)"

record MessagePreviews =
  preview_id :: jsstring
  preview_customer :: jsstring
  preview_amount :: jsstring
  preview_messages :: "RecipientRole \<Rightarrow> jsstring"
  preview_lengths :: "RecipientRole \<Rightarrow> nat"

text \<open>\<open>generateAllMessages\<close> renders the four roles in turn and throws what they throw.\<close>

definition generateAllMessages :: "env \<Rightarrow> DealData \<Rightarrow> thrown + (RecipientRole \<Rightarrow> jsstring)" where
  "generateAllMessages env deal =
     (case generateMessage env accounts deal of Inl e \<Rightarrow> Inl e | Inr a \<Rightarrow>
      case generateMessage env logistics deal of Inl e \<Rightarrow> Inl e | Inr l \<Rightarrow>
      case generateMessage env boss1 deal of Inl e \<Rightarrow> Inl e | Inr b \<Rightarrow>
      case generateMessage env bossog deal of Inl e \<Rightarrow> Inl e | Inr g \<Rightarrow>
        Inr (\<lambda>r. case r of accounts \<Rightarrow> a | logistics \<Rightarrow> l | boss1 \<Rightarrow> b | bossog \<Rightarrow> g))"

definition getMessagePreviews :: "env \<Rightarrow> DealData \<Rightarrow> thrown + MessagePreviews" where
  "getMessagePreviews env deal =
     (let validationErrors = validateDealForMessaging (as_partial deal) in
      if length validationErrors > 0 then
        Inl (OtherError None
               (u ''Cannot generate messages: '' @ join (u '', '') validationErrors))
      else
        (case generateAllMessages env deal of
           Inl e \<Rightarrow> Inl e
         | Inr messages \<Rightarrow>
             Inr \<lparr>preview_id = deal_id deal, preview_customer = saleParty deal,
                   preview_amount =
                     formatCurrency env (js_times (quantitySold deal) (saleRate deal)),
                   preview_messages = messages,
                   preview_lengths = (\<lambda>r. length (messages r))\<rparr>))"

section \<open>deal.service: DealService.createDeal\<close>














section \<open>Deliveries to the four roles\<close>

text \<open>
  What a downstream answer delivers: the \<open>id\<close>s of a 2xx response whose body parses and
  has a \<open>messages\<close> array, and nothing for any other answer.
\<close>

definition delivery :: "fetch_outcome \<Rightarrow> jsstring option list option" where
  "delivery outcome =
     (case outcome of
        Rejects code m \<Rightarrow> None
      | Responds response \<Rightarrow>
          if response_ok response
          then (case bodyJson response of
                  Inr (Response ids) \<Rightarrow> Some ids
                | Inr (Malformed m) \<Rightarrow> None
                | Inl m \<Rightarrow> None)
          else None)"

text \<open>The message rendered for a role (empty when rendering throws) and its request.\<close>

definition rendered :: "env \<Rightarrow> DealData \<Rightarrow> RecipientRole \<Rightarrow> jsstring" where
  "rendered env deal r = (case generateMessage env r deal of Inl e \<Rightarrow> [] | Inr msg \<Rightarrow> msg)"

definition role_request :: "env \<Rightarrow> WhatsAppConfig \<Rightarrow> DealData \<Rightarrow> RecipientRole \<Rightarrow> ApiRequest" where
  "role_request env cfg deal r = api_request cfg (recipients cfg r) (rendered env deal r)"

text \<open>A role is deliverable when its message renders and passes \<open>validateInputs\<close> with its phone.\<close>

definition deliverable :: "env \<Rightarrow> WhatsAppConfig \<Rightarrow> DealData \<Rightarrow> RecipientRole \<Rightarrow> bool" where
  "deliverable env cfg deal r =
     (case generateMessage env r deal of
        Inl e \<Rightarrow> False
      | Inr msg \<Rightarrow> validateInputs (recipients cfg r) msg = Inr ())"

text \<open>
  The downstream succeeds for a role when it delivers that role's request whenever it
  is made, and fails for it when it never does. A second downstream \<open>f\<close> leaves a role
  unaffected when it answers that role's request as the first does.
\<close>

definition downstream_accepts :: "env \<Rightarrow> WhatsAppConfig \<Rightarrow> DealData \<Rightarrow> RecipientRole \<Rightarrow> bool" where
  "downstream_accepts env cfg deal r \<longleftrightarrow>
     (\<forall>w. delivery (fetch env w (role_request env cfg deal r)) \<noteq> None)"







definition all_roles :: "RecipientRole list" where
  "all_roles = [accounts, logistics, boss1, bossog]"


section \<open>Fixtures\<close>

text \<open>
  A concrete platform and downstream for the closed statements below. The formatters
  are stand-ins that print a fixed text, and \<open>parseInt\<close> reads a string of decimal
  digits; none of the statements depends on the text the formatters produce.
\<close>

definition number_text :: "jsnum \<Rightarrow> jsstring" where
  "number_text n = (case n of NaN \<Rightarrow> u ''NaN'' | Num x \<Rightarrow> u ''1,000'')"

definition is_digit :: "nat \<Rightarrow> bool" where
  "is_digit c \<longleftrightarrow> 48 \<le> c \<and> c \<le> 57"

definition digits_value :: "jsstring \<Rightarrow> jsnum" where
  "digits_value s =
     (if s \<noteq> [] \<and> list_all is_digit s
      then Num (real (foldl (\<lambda>a c. a * 10 + (c - 48)) 0 s)) else NaN)"

definition accepted :: HttpResponse where
  "accepted =
     \<lparr>status = 200, retryAfterHeader = None, bodyText = u ''accepted'',
      bodyJson = Inr (Response [Some (u ''wamid.1'')])\<rparr>"




text \<open>A downstream that accepts every request.\<close>

definition accepting_env :: env where
  "accepting_env =
     \<lparr>fetch = (\<lambda>w request. Responds accepted), random = half, simulateErrors = False,
      parseInt = digits_value, numberToString = number_text,
      intlCurrency = number_text, intlNumber = number_text,
      intlDate = (\<lambda>t. u ''15 Nov 2023'')\<rparr>"

definition test_phone :: "RecipientRole \<Rightarrow> jsstring" where
  "test_phone r =
     (case r of
        accounts \<Rightarrow> u ''+919876543210''
      | logistics \<Rightarrow> u ''+919876543211''
      | boss1 \<Rightarrow> u ''+919876543212''
      | bossog \<Rightarrow> u ''+919876543213'')"




definition test_config :: WhatsAppConfig where
  "test_config =
     \<lparr>apiToken = u ''EAAtesttoken0001'', apiUrl = u ''https://graph.facebook.com/v17.0'',
      phoneNumberId = u ''100000000000001'', recipients = test_phone,
      messagingEnabled = True, rateLimitEnabled = True, retryEnabled = True,
      maxRetries = 3, retryDelays = [1000, 5000, 15000], circuitBreakerThreshold = 10\<rparr>"

text \<open>The same configuration with the \<open>accounts\<close> phone number left empty.\<close>

definition config_without_accounts :: WhatsAppConfig where
  "config_without_accounts = test_config\<lparr>recipients := test_phone(accounts := [])\<rparr>"

definition test_deal :: DealData where
  "test_deal =
     \<lparr>deal_id = u ''DEAL-1'', deal_date = Some 1700000000000, saleParty = u ''Acme'',
      quantitySold = Num 1000, saleRate = Num 85, deliveryTerms = delivered,
      saleComments = None, productCode = u ''PP-001'', product = None, grade = None,
      company = None, specificGrade = None, materialSource = from_inventory,
      purchaseParty = None, quantityPurchased = None, purchaseRate = None,
      warehouseLocation = None, purchaseComments = None, finalComments = None\<rparr>"

text \<open>The same deal with a sale comment of 4097 characters.\<close>

definition long_comment_deal :: DealData where
  "long_comment_deal = test_deal\<lparr>saleComments := Some (replicate 4097 97)\<rparr>"

text \<open>A partial deal for new material without a purchase rate.\<close>

definition deal_without_purchase_rate :: PartialDealData where
  "deal_without_purchase_rate =
     (as_partial test_deal)
       \<lparr>p_materialSource := Some new_material, p_purchaseParty := Some (u ''Supplier''),
        p_quantityPurchased := Some (Num 1000), p_purchaseRate := None\<rparr>"


text \<open>The words of the claim on a purchase rate: missing, or not a positive number.\<close>

definition absent_or_not_positive :: "jsnum option \<Rightarrow> bool" where
  "absent_or_not_positive n =
     (case n of None \<Rightarrow> True | Some NaN \<Rightarrow> True | Some (Num x) \<Rightarrow> x \<le> 0)"

section \<open>Properties of the circuit breaker\<close>

















section \<open>Properties of the rate limiter\<close>

lemma getStatus_window: "snd (getStatus cfg now reqs) = cleanOldRequests cfg now reqs"
  by (simp add: getStatus_def Let_def)

lemma getStatus_limited_iff:
  "current (fst (getStatus cfg now reqs)) = limited
     \<longleftrightarrow> maxRequestsPerMinute cfg \<le> length (cleanOldRequests cfg now reqs)"
  by (auto simp: getStatus_def Let_def)

lemma getStatus_waitTime:
  assumes "current (fst (getStatus cfg now reqs)) = limited"
  shows "waitTime (fst (getStatus cfg now reqs)) =
           Some (max 0 (case cleanOldRequests cfg now reqs of
                          [] \<Rightarrow> windowMs cfg
                        | oldestRequest # _ \<Rightarrow> windowMs cfg - (now - oldestRequest)))"
  using assms by (auto simp: getStatus_def Let_def split: if_splits)

lemma limited_waitTime_positive:
  assumes lim: "current (fst (getStatus cfg now reqs)) = limited" and W: "0 < windowMs cfg"
  shows "0 < waitTime_or_0 (fst (getStatus cfg now reqs))"
proof (cases "cleanOldRequests cfg now reqs")
  case Nil
  then show ?thesis
    using getStatus_waitTime [OF lim] W by (simp add: waitTime_or_0_def)
next
  case (Cons oldest rest)
  then have "oldest \<in> set (cleanOldRequests cfg now reqs)" by simp
  then have "oldest > now - windowMs cfg" by (simp add: cleanOldRequests_def)
  then show ?thesis
    using getStatus_waitTime [OF lim] Cons by (simp add: waitTime_or_0_def)
qed

lemma wait_delay_lower:
  assumes "0 \<le> r" and "0 \<le> ms"
  shows "real_of_int ms \<le> wait_delay cfg r ms"
proof -
  have "0 \<le> r * min (real_of_int ms * 0.1) 5000"
    using assms by (intro mult_nonneg_nonneg) simp_all
  then show ?thesis using assms by (simp add: wait_delay_def Let_def)
qed

lemma wait_delay_upper:
  assumes "r < 1" and "0 \<le> r" and "0 \<le> ms"
  shows "wait_delay cfg r ms \<le> real_of_int ms + min (real_of_int ms * 0.1) 5000"
proof -
  have m: "0 \<le> min (real_of_int ms * 0.1) 5000" using assms by simp
  have "r * min (real_of_int ms * 0.1) 5000 \<le> 1 * min (real_of_int ms * 0.1) 5000"
    using assms m by (intro mult_right_mono) simp_all
  then show ?thesis using assms m by (simp add: wait_delay_def Let_def)
qed

lemma waitIfNeeded_limited:
  assumes "current (fst (getStatus cfg (clock w) reqs)) = limited"
  shows "waitIfNeeded cfg rnd (reqs, w) =
           (waitTime_or_0 (fst (getStatus cfg (clock w) reqs)),
            cleanOldRequests cfg (clock w) reqs,
            wait cfg rnd (waitTime_or_0 (fst (getStatus cfg (clock w) reqs))) w)"
  using assms by (simp add: waitIfNeeded_def Let_def getStatus_window)

lemma waitIfNeeded_permitted:
  assumes "current (fst (getStatus cfg (clock w) reqs)) \<noteq> limited"
  shows "waitIfNeeded cfg rnd (reqs, w) =
           (0, cleanOldRequests cfg (clock w) reqs @ [clock w], w)"
proof -
  have "length (cleanOldRequests cfg (clock w) reqs) < maxRequestsPerMinute cfg"
    using assms by (simp add: getStatus_limited_iff)
  then have "recordRequest cfg (clock w) (cleanOldRequests cfg (clock w) reqs)
               = cleanOldRequests cfg (clock w) reqs @ [clock w]"
    by (simp add: recordRequest_def Let_def)
  then show ?thesis
    using assms by (simp add: waitIfNeeded_def Let_def getStatus_window)
qed

lemma wait_timers:
  "timers (wait cfg rnd ms w) = timers w @ [wait_delay cfg (rnd (rand_used w)) ms]"
  by (simp add: wait_def Let_def)

lemma wait_clock:
  "clock (wait cfg rnd ms w) = clock w + \<lfloor>wait_delay cfg (rnd (rand_used w)) ms\<rfloor>"
  by (simp add: wait_def Let_def)

text \<open>Each single call either proceeds at once or is reported limited and delayed.\<close>

lemma call_permitted_or_delayed:
  assumes W: "0 < windowMs cfg" and rnd: "unit_interval rnd"
  shows "permitted_or_delayed cfg
           \<lparr>call_world = w, window_before = reqs,
            returned = fst (waitIfNeeded cfg rnd (reqs, w)),
            window_after = fst (snd (waitIfNeeded cfg rnd (reqs, w))),
            world_after = snd (snd (waitIfNeeded cfg rnd (reqs, w)))\<rparr>"
proof (cases "current (fst (getStatus cfg (clock w) reqs)) = limited")
  case True
  let ?t = "waitTime_or_0 (fst (getStatus cfg (clock w) reqs))"
  let ?d = "wait_delay cfg (rnd (rand_used w)) ?t"
  have pos: "0 < ?t" using limited_waitTime_positive [OF True W] .
  have r0: "0 \<le> rnd (rand_used w)" using rnd by (simp add: unit_interval_def)
  have low: "real_of_int ?t \<le> ?d" using wait_delay_lower [OF r0, of ?t cfg] pos by simp
  then have "?t \<le> \<lfloor>?d\<rfloor>" by (simp add: le_floor_iff)
  then show ?thesis
    using True pos low
    by (simp add: permitted_or_delayed_def reported_limited_def delayed_def
          proceeds_at_once_def waitIfNeeded_limited wait_timers wait_clock)
next
  case False
  then show ?thesis
    by (simp add: permitted_or_delayed_def reported_limited_def proceeds_at_once_def
          waitIfNeeded_permitted)
qed

lemma all_permitted_or_delayed:
  assumes "0 < windowMs cfg" and "unit_interval rnd"
  shows "list_all (permitted_or_delayed cfg) (waitIfNeeded_seq cfg rnd ws reqs)"
  using assms
  by (induction ws arbitrary: reqs) (simp_all add: call_permitted_or_delayed)

text \<open>
  Counting: every call that proceeds at once adds one surviving timestamp, and it is
  permitted only while fewer than \<open>maxRequestsPerMinute\<close> are tracked.
\<close>

lemma survives_Cons: "survives W (w # ws) r \<longleftrightarrow> r > clock w - W \<and> survives W ws r"
  by (simp add: survives_def)

lemma survivors_kept:
  "length (filter (survives (windowMs cfg) (w # ws)) reqs)
     \<le> length (filter (survives (windowMs cfg) ws) (cleanOldRequests cfg (clock w) reqs))"
proof -
  have "filter (survives (windowMs cfg) (w # ws)) reqs
          = filter (survives (windowMs cfg) ws) (cleanOldRequests cfg (clock w) reqs)"
    by (auto simp: cleanOldRequests_def survives_Cons intro: filter_cong)
  then show ?thesis by simp
qed

lemma within_span_Cons:
  assumes "within_span W (w # ws)"
  shows "within_span W ws" and "survives W ws (clock w)" and "0 < W"
proof -
  have all: "\<forall>a\<in>set (w # ws). \<forall>b\<in>set (w # ws). clock b - clock a < W"
    using assms by (simp add: within_span_def list_all_iff)
  then show "within_span W ws" by (simp add: within_span_def list_all_iff)
  from all have "\<forall>b\<in>set ws. clock b - clock w < W" by simp
  then show "survives W ws (clock w)" by (auto simp: survives_def list_all_iff)
  from all have "clock w - clock w < W" by simp
  then show "0 < W" by simp
qed

lemma permitted_count:
  assumes "within_span (windowMs cfg) ws"
  shows "length (filter proceeds_at_once (waitIfNeeded_seq cfg rnd ws reqs))
           \<le> maxRequestsPerMinute cfg - length (filter (survives (windowMs cfg) ws) reqs)"
  using assms
proof (induction ws arbitrary: reqs)
  case Nil
  then show ?case by simp
next
  case (Cons w ws)
  let ?W = "windowMs cfg"
  let ?clean = "cleanOldRequests cfg (clock w) reqs"
  let ?r = "waitIfNeeded cfg rnd (reqs, w)"
  let ?c = "\<lparr>call_world = w, window_before = reqs, returned = fst ?r,
             window_after = fst (snd ?r), world_after = snd (snd ?r)\<rparr>"
  have span: "within_span ?W ws" and now: "survives ?W ws (clock w)" and W: "0 < ?W"
    using within_span_Cons [OF Cons.prems] by simp_all
  have kept: "length (filter (survives ?W (w # ws)) reqs)
                \<le> length (filter (survives ?W ws) ?clean)"
    by (rule survivors_kept)
  show ?case
  proof (cases "current (fst (getStatus cfg (clock w) reqs)) = limited")
    case True
    have "0 < waitTime_or_0 (fst (getStatus cfg (clock w) reqs))"
      using limited_waitTime_positive [OF True W] .
    then have not: "\<not> proceeds_at_once ?c"
      using True by (simp add: proceeds_at_once_def waitIfNeeded_limited)
    have "length (filter proceeds_at_once (waitIfNeeded_seq cfg rnd ws ?clean))
            \<le> maxRequestsPerMinute cfg - length (filter (survives ?W ws) ?clean)"
      using span by (rule Cons.IH)
    then show ?thesis
      using not kept True by (simp add: waitIfNeeded_limited)
  next
    case False
    then have room: "length ?clean < maxRequestsPerMinute cfg"
      by (simp add: getStatus_limited_iff)
    have less: "length (filter (survives ?W ws) ?clean) < maxRequestsPerMinute cfg"
      using le_less_trans [OF length_filter_le room] .
    have "length (filter proceeds_at_once (waitIfNeeded_seq cfg rnd ws (?clean @ [clock w])))
            \<le> maxRequestsPerMinute cfg
                - length (filter (survives ?W ws) (?clean @ [clock w]))"
      using span by (rule Cons.IH)
    then have "length (filter proceeds_at_once
                 (waitIfNeeded_seq cfg rnd ws (?clean @ [clock w])))
            \<le> maxRequestsPerMinute cfg - Suc (length (filter (survives ?W ws) ?clean))"
      using now by simp
    moreover have "proceeds_at_once
                     \<lparr>call_world = w, window_before = reqs, returned = 0,
                      window_after = ?clean @ [clock w], world_after = w\<rparr>"
      by (simp add: proceeds_at_once_def)
    ultimately show ?thesis
      using less kept False by (simp add: waitIfNeeded_permitted)
  qed
qed

text \<open>
  C2. For every run of calls to \<open>waitIfNeeded\<close> that all lie in a time span shorter than
  \<open>windowMs\<close>, whatever the window tracked before: at most \<open>maxRequestsPerMinute\<close> of them
  proceed at once (return 0, no timer); every other call is reported \<open>limited\<close> and sets
  a timer of at least the positive wait time it returns, so it does not proceed at once.
\<close>

theorem limiter_permits_at_most_max:
  assumes "within_span (windowMs cfg) ws" and "unit_interval rnd"
  shows "length (filter proceeds_at_once (waitIfNeeded_seq cfg rnd ws reqs))
           \<le> maxRequestsPerMinute cfg
       \<and> list_all (permitted_or_delayed cfg) (waitIfNeeded_seq cfg rnd ws reqs)"
proof
  have "length (filter proceeds_at_once (waitIfNeeded_seq cfg rnd ws reqs))
          \<le> maxRequestsPerMinute cfg - length (filter (survives (windowMs cfg) ws) reqs)"
    using assms(1) by (rule permitted_count)
  then show "length (filter proceeds_at_once (waitIfNeeded_seq cfg rnd ws reqs))
               \<le> maxRequestsPerMinute cfg"
    by simp
next
  show "list_all (permitted_or_delayed cfg) (waitIfNeeded_seq cfg rnd ws reqs)"
  proof (cases ws)
    case Nil
    then show ?thesis by simp
  next
    case (Cons w ws')
    then have "0 < windowMs cfg"
      using within_span_Cons(3) assms(1) by blast
    then show ?thesis using assms(2) by (rule all_permitted_or_delayed)
  qed
qed

theorem limiter_permits_at_most_max_witness:
  "within_span (windowMs two_per_minute) [world_at 1000, world_at 2000, world_at 3000]
   \<and> unit_interval half
   \<and> length (filter proceeds_at_once
        (waitIfNeeded_seq two_per_minute half
           [world_at 1000, world_at 2000, world_at 3000] []))
       \<le> maxRequestsPerMinute two_per_minute
   \<and> list_all (permitted_or_delayed two_per_minute)
        (waitIfNeeded_seq two_per_minute half
           [world_at 1000, world_at 2000, world_at 3000] [])
   \<and> map returned
        (waitIfNeeded_seq two_per_minute half
           [world_at 1000, world_at 2000, world_at 3000] []) = [0, 0, 58000]"
proof -
  have span: "within_span (windowMs two_per_minute)
                [world_at 1000, world_at 2000, world_at 3000]"
    by (simp add: within_span_def two_per_minute_def world_at_def)
  have rnd: "unit_interval half"
    by (simp add: unit_interval_def half_def)
  have run: "map returned
        (waitIfNeeded_seq two_per_minute half
           [world_at 1000, world_at 2000, world_at 3000] []) = [0, 0, 58000]"
    by (simp add: waitIfNeeded_def getStatus_def cleanOldRequests_def recordRequest_def
          waitTime_or_0_def two_per_minute_def world_at_def Let_def)
  show ?thesis
    using limiter_permits_at_most_max [OF span rnd, of "[]"] span rnd run by blast
qed

text \<open>
  C3 at a failing input: a limiter of two requests per minute whose window holds the
  timestamps 1000 and 2000 is called at time 3000. The call is reported \<open>limited\<close>, sleeps
  for the computed 58000 ms (until the oldest request leaves the window) and returns
  58000; the tracked window is still \<open>[1000, 2000]\<close>: the request is not registered.
\<close>

theorem waitIfNeeded_limited_call_not_recorded:
  "current (fst (getStatus two_per_minute 3000 [1000, 2000])) = limited
   \<and> waitIfNeeded two_per_minute half ([1000, 2000], world_at 3000) =
       (58000, [1000, 2000],
        \<lparr>clock = 61000, rand_used = 0, sent = [], timers = [58000]\<rparr>)"
  by (simp add: waitIfNeeded_def getStatus_def cleanOldRequests_def wait_def wait_delay_def
        waitTime_or_0_def two_per_minute_def world_at_def Let_def)

section \<open>Properties of the failure classification\<close>





section \<open>Properties of input validation\<close>


text \<open>An input that \<open>validateInputs\<close> rejects fails without touching the service or the world.\<close>

lemma sendMessage_rejected_input:
  assumes "validateInputs phoneNumber msg = Inl e"
  shows "snd (sendMessage env (svc, w) phoneNumber msg deal r) = (svc, w)
       \<and> \<not> success (fst (sendMessage env (svc, w) phoneNumber msg deal r))"
  using assms by (simp add: sendMessage_def sendMessage_try_def Let_def)

text \<open>
  C6 at a failing input: the phone number \<open>+123456789\<close> has nine digits after the \<open>+\<close>.
  \<open>validateInputs\<close> accepts it (its length, 10, is not below 10), and so it accepts
  \<open>+abcdefghij\<close>; the send goes to the downstream and succeeds.
\<close>

theorem nine_digit_phone_reaches_transport:
  "validateInputs (u ''+123456789'') (u ''hi'') = Inr ()
   \<and> validateInputs (u ''+abcdefghij'') (u ''hi'') = Inr ()
   \<and> success (fst (sendMessage accepting_env (new_service test_config 0, world_at 1000)
                     (u ''+123456789'') (u ''hi'') None None))
   \<and> sent (snd (snd (sendMessage accepting_env (new_service test_config 0, world_at 1000)
                       (u ''+123456789'') (u ''hi'') None None)))
       = [api_request test_config (u ''+123456789'') (u ''hi'')]"
  by (simp add: validateInputs_def startsWith_def u_def sendMessage_def sendMessage_try_def
        new_service_def test_config_def world_at_def accepting_env_def accepted_def
        waitIfNeeded_def getStatus_def cleanOldRequests_def recordRequest_def
        default_limiter_config_def default_breaker_config_def new_breaker_def
        execute_def run_operation_def makeApiCall_def api_request_def response_ok_def
        onSuccess_def cleanOldMetrics_def Let_def)

section \<open>Properties of deal creation\<close>


section \<open>Properties of deal validation\<close>

lemma absent_or_not_positive_iff:
  "absent_or_not_positive n \<longleftrightarrow> missing_or_not_positive n"
  by (cases n; cases "the n")
     (auto simp: absent_or_not_positive_def missing_or_not_positive_def truthy_num_def
        num_of_def)

lemma push_if_set: "set (push_if c m es) = (if c then insert m (set es) else set es)"
  by (simp add: push_if_def)

text \<open>
  C9. A partial deal whose material source is \<open>new-material\<close> and whose purchase rate is
  missing or not a positive number has the error naming the purchase rate in its list;
  as a \<open>DealData\<close> it is rejected by \<open>getMessagePreviews\<close> with that list, whatever the
  templates would render or throw.
\<close>

theorem missing_purchase_rate_rejected:
  "(p_materialSource deal = Some new_material \<and> absent_or_not_positive (p_purchaseRate deal)
    \<longrightarrow> u ''Purchase rate is required for new material''
          \<in> set (validateDealForMessaging deal))
   \<and> (materialSource full = new_material \<and> absent_or_not_positive (purchaseRate full)
    \<longrightarrow> u ''Purchase rate is required for new material''
          \<in> set (validateDealForMessaging (as_partial full))
      \<and> getMessagePreviews env full =
          Inl (OtherError None
                 (u ''Cannot generate messages: ''
                    @ join (u '', '') (validateDealForMessaging (as_partial full)))))"
proof -
  have named: "u ''Purchase rate is required for new material''
                 \<in> set (validateDealForMessaging d)"
    if "p_materialSource d = Some new_material" "absent_or_not_positive (p_purchaseRate d)"
    for d
    using that
    by (simp add: validateDealForMessaging_def Let_def push_if_set
          absent_or_not_positive_iff)
  have rejected: "getMessagePreviews env full =
          Inl (OtherError None
                 (u ''Cannot generate messages: ''
                    @ join (u '', '') (validateDealForMessaging (as_partial full))))"
    if "materialSource full = new_material" "absent_or_not_positive (purchaseRate full)"
  proof -
    have "u ''Purchase rate is required for new material''
            \<in> set (validateDealForMessaging (as_partial full))"
      using that by (intro named) (simp_all add: as_partial_def)
    then have "validateDealForMessaging (as_partial full) \<noteq> []" by auto
    then show ?thesis by (simp add: getMessagePreviews_def Let_def)
  qed
  show ?thesis
    using named [of deal] named [of "as_partial full"] rejected
    by (simp add: as_partial_def)
qed

theorem missing_purchase_rate_rejected_witness:
  "p_materialSource deal_without_purchase_rate = Some new_material
   \<and> absent_or_not_positive (p_purchaseRate deal_without_purchase_rate)
   \<and> u ''Purchase rate is required for new material''
       \<in> set (validateDealForMessaging deal_without_purchase_rate)
   \<and> materialSource (test_deal\<lparr>materialSource := new_material\<rparr>) = new_material
   \<and> absent_or_not_positive (purchaseRate (test_deal\<lparr>materialSource := new_material\<rparr>))
   \<and> isl (getMessagePreviews accepting_env (test_deal\<lparr>materialSource := new_material\<rparr>))"
proof -
  note P = missing_purchase_rate_rejected
      [where deal = deal_without_purchase_rate
         and full = "test_deal\<lparr>materialSource := new_material\<rparr>"
         and env = accepting_env]
  have h1: "p_materialSource deal_without_purchase_rate = Some new_material
          \<and> absent_or_not_positive (p_purchaseRate deal_without_purchase_rate)"
    by (simp add: deal_without_purchase_rate_def absent_or_not_positive_def)
  have h2: "materialSource (test_deal\<lparr>materialSource := new_material\<rparr>) = new_material
          \<and> absent_or_not_positive (purchaseRate (test_deal\<lparr>materialSource := new_material\<rparr>))"
    by (simp add: test_deal_def absent_or_not_positive_def)
  have c1: "u ''Purchase rate is required for new material''
              \<in> set (validateDealForMessaging deal_without_purchase_rate)"
    using P h1 by blast
  have "getMessagePreviews accepting_env (test_deal\<lparr>materialSource := new_material\<rparr>) =
          Inl (OtherError None
                 (u ''Cannot generate messages: ''
                    @ join (u '', '') (validateDealForMessaging
                         (as_partial (test_deal\<lparr>materialSource := new_material\<rparr>)))))"
    using P h2 by blast
  then have c2: "isl (getMessagePreviews accepting_env
                        (test_deal\<lparr>materialSource := new_material\<rparr>))"
    by simp
  show ?thesis using h1 h2 c1 c2 by blast
qed

section \<open>Properties of a single send\<close>

lemma makeApiCall_world:
  assumes "\<not> simulateErrors env"
  shows "snd (makeApiCall env cfg p m w) = w\<lparr>sent := sent w @ [api_request cfg p m]\<rparr>"
  using assms
  by (simp add: makeApiCall_def Let_def split: fetch_outcome.splits sum.splits)

lemma makeApiCall_delivered:
  assumes "\<not> simulateErrors env"
    and "delivery (fetch env w (api_request cfg p m)) = Some ids"
  shows "fst (makeApiCall env cfg p m w) = Inr (Response ids)"
  using assms
  by (auto simp: makeApiCall_def delivery_def Let_def
           split: fetch_outcome.splits sum.splits if_splits WhatsAppResponse.splits)


lemma execute_not_open:
  assumes "state b \<noteq> OPEN"
  shows "execute cfg operation (b, w) = run_operation cfg operation (b, w)"
  using assms by (simp add: execute_def)

lemma run_operation_parts:
  "fst (run_operation cfg operation (b, w)) = fst (operation w)"
  "snd (snd (run_operation cfg operation (b, w))) = snd (operation w)"
  "fst (snd (run_operation cfg operation (b, w))) =
     (if isl (fst (operation w)) then onFailure cfg (clock (snd (operation w))) b
      else onSuccess (clock (snd (operation w))) b)"
  by (auto simp: run_operation_def split: prod.splits sum.splits)

lemma sendMessage_delivered:
  assumes en: "messagingEnabled (config svc)"
    and valid: "validateInputs p m = Inr ()"
    and nsim: "\<not> simulateErrors env"
    and st: "state (circuitBreaker svc) \<noteq> OPEN"
    and d: "delivery (fetch env
              (snd (snd (waitIfNeeded (rateLimiterConfig svc) (random env) (rateLimiter svc, w))))
              (api_request (config svc) p m)) = Some ids"
  shows "sendMessage env (svc, w) p m deal r =
     (let lim = waitIfNeeded (rateLimiterConfig svc) (random env) (rateLimiter svc, w);
          w1 = snd (snd lim)
      in (\<lparr>success = True,
           messageId = Some (u ''whatsapp-'' @ numberToString env (Num (of_int (clock w1)))),
           externalMessageId = (case ids of [] \<Rightarrow> None | i # _ \<Rightarrow> i),
           error = None, recipient = p, role = role_or_accounts r\<rparr>,
          svc\<lparr>rateLimiter := fst (snd lim),
              circuitBreaker := onSuccess (clock w1) (circuitBreaker svc)\<rparr>,
          w1\<lparr>sent := sent w1 @ [api_request (config svc) p m]\<rparr>))"
  using en valid st
  by (simp add: sendMessage_def sendMessage_try_def Let_def execute_not_open
        run_operation_parts makeApiCall_world [OF nsim] makeApiCall_delivered [OF nsim d])


lemma onSuccess_not_open:
  assumes "state b \<noteq> OPEN"
  shows "state (onSuccess now b) \<noteq> OPEN"
  using assms
  by (cases "state b")
     (simp_all add: onSuccess_def cleanOldMetrics_def resetCounters_def transitionTo_def Let_def)





lemma send_to_role_rendered:
  assumes "generateMessage env r deal = Inr msg"
  shows "fst (fst (send_to_role env deal (r, p) ((rs, es), sw))) =
           rs @ [fst (sendMessage env sw p msg (Some (deal_id deal)) (Some r))]"
    and "snd (send_to_role env deal (r, p) ((rs, es), sw)) =
           snd (sendMessage env sw p msg (Some (deal_id deal)) (Some r))"
  using assms by (simp_all add: send_to_role_def Let_def)


lemma sendMessage_shape:
  "role (fst (sendMessage env sw p m deal r)) = role_or_accounts r"
  "recipient (fst (sendMessage env sw p m deal r)) = p"
  "success (fst (sendMessage env sw p m deal r))
     \<longleftrightarrow> error (fst (sendMessage env sw p m deal r)) = None"
  "success (fst (sendMessage env sw p m deal r))
     \<longleftrightarrow> messageId (fst (sendMessage env sw p m deal r)) \<noteq> None"
  by (auto simp: sendMessage_def sendMessage_try_def Let_def
           split: prod.splits sum.splits WhatsAppResponse.splits if_splits)



section \<open>Properties of the sends to the four roles\<close>

text \<open>One run against a downstream that accepts every role: a role succeeds iff it is deliverable.\<close>

lemma run_accepted:
  assumes nsim: "\<not> simulateErrors env"
    and en: "messagingEnabled (config svc)"
    and st: "state (circuitBreaker svc) \<noteq> OPEN"
    and acc: "list_all (downstream_accepts env (config svc) deal) roles"
  shows "\<exists>new. fst (fst (send_to_roles env deal
                          (map (\<lambda>r. (r, recipients (config svc) r)) roles)
                          ((rs, es), svc, w))) = rs @ new
             \<and> map role new = roles
             \<and> map success new = map (deliverable env (config svc) deal) roles"
  using en st acc
proof (induction roles arbitrary: rs es svc w)
  case Nil
  then show ?case by simp
next
  case (Cons r roles)
  let ?cfg = "config svc"
  let ?p = "recipients ?cfg r"
  let ?acc = "send_to_role env deal (r, ?p) ((rs, es), svc, w)"
  have "\<exists>x svc1 w1 es1. ?acc = ((rs @ [x], es1), svc1, w1) \<and> role x = r
          \<and> success x = deliverable env ?cfg deal r
          \<and> config svc1 = ?cfg \<and> state (circuitBreaker svc1) \<noteq> OPEN"
  proof (cases "generateMessage env r deal")
    case (Inl e)
    then show ?thesis
      using Cons.prems(2)
      by (simp add: send_to_role_def Let_def failed_result_def deliverable_def)
  next
    case (Inr m)
    let ?S = "sendMessage env (svc, w) ?p m (Some (deal_id deal)) (Some r)"
    have step: "fst (fst ?acc) = rs @ [fst ?S]" "snd ?acc = snd ?S"
      using send_to_role_rendered [OF Inr] by simp_all
    have role: "role (fst ?S) = r"
      by (simp add: sendMessage_shape role_or_accounts_def)
    show ?thesis
    proof (cases "validateInputs ?p m")
      case (Inl e)
      have "snd ?S = (svc, w)" "\<not> success (fst ?S)"
        using sendMessage_rejected_input [OF Inl] by simp_all
      moreover have "\<not> deliverable env ?cfg deal r"
        using Inr Inl by (simp add: deliverable_def)
      ultimately show ?thesis
        using step role Cons.prems(2)
        by (intro exI [of _ "fst ?S"] exI [of _ svc] exI [of _ w]
                  exI [of _ "snd (fst ?acc)"])
           (simp add: prod_eq_iff)
    next
      case valid: (Inr unit)
      have d: "deliverable env ?cfg deal r"
        using Inr valid by (simp add: deliverable_def)
      have m: "m = rendered env deal r" using Inr by (simp add: rendered_def)
      have valid': "validateInputs ?p m = Inr ()" using valid by simp
      let ?w1 = "snd (snd (waitIfNeeded (rateLimiterConfig svc) (random env)
                             (rateLimiter svc, w)))"
      have "downstream_accepts env ?cfg deal r" using Cons.prems(3) by simp
      then obtain ids where ids: "delivery (fetch env ?w1 (api_request ?cfg ?p m)) = Some ids"
        by (auto simp: downstream_accepts_def role_request_def m)
      note sm = sendMessage_delivered [OF Cons.prems(1) valid' nsim Cons.prems(2) ids,
                  of "Some (deal_id deal)" "Some r"]
      have "success (fst ?S)" "config (fst (snd ?S)) = ?cfg"
          "state (circuitBreaker (fst (snd ?S))) \<noteq> OPEN"
        using onSuccess_not_open [OF Cons.prems(2)] by (simp_all add: sm Let_def)
      then show ?thesis
        using step role d
        by (intro exI [of _ "fst ?S"] exI [of _ "fst (snd ?S)"] exI [of _ "snd (snd ?S)"]
                  exI [of _ "snd (fst ?acc)"])
           (simp add: prod_eq_iff)
    qed
  qed
  then obtain x svc1 w1 es1 where x: "?acc = ((rs @ [x], es1), svc1, w1)" "role x = r"
      "success x = deliverable env ?cfg deal r" "config svc1 = ?cfg"
      "state (circuitBreaker svc1) \<noteq> OPEN"
    by blast
  have "\<exists>new. fst (fst (send_to_roles env deal
                          (map (\<lambda>r. (r, recipients (config svc1) r)) roles)
                          ((rs @ [x], es1), svc1, w1))) = (rs @ [x]) @ new
             \<and> map role new = roles
             \<and> map success new = map (deliverable env (config svc1) deal) roles"
    using Cons.prems x(4,5) by (intro Cons.IH) simp_all
  then obtain new where new: "fst (fst (send_to_roles env deal
                          (map (\<lambda>r. (r, recipients ?cfg r)) roles)
                          ((rs @ [x], es1), svc1, w1))) = (rs @ [x]) @ new"
      "map role new = roles" "map success new = map (deliverable env ?cfg deal) roles"
    using x(4) by auto
  show ?case
    using new x(2,3) by (intro exI [of _ "x # new"]) (simp add: x(1))
qed

lemma count_success:
  "length (filter success rs) = length (filter id (map success rs))"
  "length (filter failed rs) = length (filter Not (map success rs))"
  by (induction rs) (simp_all add: failed_def)

lemma sendDealNotifications_results:
  "results (fst (sendDealNotifications env (svc, w) deal)) =
     fst (fst (send_to_roles env deal (map (\<lambda>r. (r, recipients (config svc) r)) all_roles)
                 (([], []), svc, w)))"
  "successCount (fst (sendDealNotifications env (svc, w) deal)) =
     length (filter success (results (fst (sendDealNotifications env (svc, w) deal))))"
  "failureCount (fst (sendDealNotifications env (svc, w) deal)) =
     length (filter failed (results (fst (sendDealNotifications env (svc, w) deal))))"
  by (simp_all add: sendDealNotifications_def recipient_entries_def all_roles_def Let_def)


section \<open>The fixtures\<close>

lemma length_u: "length (u s) = length s"
  by (simp add: u_def)

lemma validateInputs_accepts_iff:
  "validateInputs p m = Inr ()
     \<longleftrightarrow> p \<noteq> [] \<and> startsWith p (u ''+'') \<and> 10 \<le> length p \<and> length p \<le> 16
         \<and> m \<noteq> [] \<and> length m \<le> 4096"
  by (auto simp: validateInputs_def)

lemma test_phone_valid:
  "test_phone r \<noteq> [] \<and> startsWith (test_phone r) (u ''+'')
   \<and> 10 \<le> length (test_phone r) \<and> length (test_phone r) \<le> 16"
  by (cases r) (simp_all add: test_phone_def startsWith_def u_def)

lemmas fixture_defs =
  formatDate_def test_deal_def long_comment_deal_def accepting_env_def
  calculateDealMetrics_def getProductDisplay_def truthy_str_def truthy_num_def str_of_def
  formatNumber_def formatCurrency_def number_text_def Let_def

lemma test_deal_messages:
  "\<exists>m. generateMessage accepting_env r test_deal = Inr m \<and> m \<noteq> [] \<and> length m \<le> 4096"
  by (cases r)
     (simp_all add: accountsTemplate_def logisticsTemplate_def boss1Template_def
        bossOGTemplate_def fixture_defs length_u)



lemma without_accounts_deliverable:
  "map (deliverable accepting_env config_without_accounts test_deal) all_roles
     = [False, True, True, True]"
proof -
  have no: "\<not> deliverable accepting_env config_without_accounts test_deal accounts"
    using test_deal_messages [of accounts]
    by (auto simp: deliverable_def validateInputs_accepts_iff config_without_accounts_def
          test_config_def)
  have yes: "deliverable accepting_env config_without_accounts test_deal r"
    if "r \<noteq> accounts" for r
    using that test_deal_messages [of r] test_phone_valid [of r]
    by (auto simp: deliverable_def validateInputs_accepts_iff config_without_accounts_def
          test_config_def)
  show ?thesis using no yes by (simp add: all_roles_def)
qed


lemma accepting_env_accepts:
  "downstream_accepts accepting_env cfg deal r"
  by (simp add: downstream_accepts_def accepting_env_def delivery_def accepted_def
        response_ok_def)

section \<open>Properties of deal notifications\<close>

lemma counts_of_flags:
  assumes "map success rs = flags"
  shows "length (filter success rs) = length (filter id flags)"
    and "length (filter failed rs) = length (filter Not flags)"
  using assms count_success [of rs] by simp_all









lemma new_service_ready:
  "messagingEnabled (config (new_service test_config t0))"
  "config (new_service cfg t0) = cfg"
  "state (circuitBreaker (new_service cfg t0)) = CLOSED"
  "Suc (failures (circuitBreaker (new_service cfg t0)))
     < failureThreshold (circuitBreakerConfig (new_service cfg t0))"
  by (simp_all add: new_service_def test_config_def new_breaker_def
        default_breaker_config_def)



text \<open>
  C7 at a failing input: the \<open>accounts\<close> phone number is left empty, the other three are
  configured, and the downstream accepts every request. The role is not skipped:
  \<open>results\<close> has an entry for each of the four roles, the one for \<open>accounts\<close> is a
  failure, and \<open>failureCount\<close> is 1.
\<close>

theorem empty_phone_role_counts_as_failure:
  "recipients config_without_accounts accounts = []
   \<and> map role (results (fst (sendDealNotifications accepting_env
            (new_service config_without_accounts 0, world_at 1000) test_deal)))
       = [accounts, logistics, boss1, bossog]
   \<and> map success (results (fst (sendDealNotifications accepting_env
            (new_service config_without_accounts 0, world_at 1000) test_deal)))
       = [False, True, True, True]
   \<and> successCount (fst (sendDealNotifications accepting_env
            (new_service config_without_accounts 0, world_at 1000) test_deal)) = 3
   \<and> failureCount (fst (sendDealNotifications accepting_env
            (new_service config_without_accounts 0, world_at 1000) test_deal)) = 1"
proof -
  let ?svc = "new_service config_without_accounts 0"
  let ?R = "fst (sendDealNotifications accepting_env (?svc, world_at 1000) test_deal)"
  have h1: "\<not> simulateErrors accepting_env" by (simp add: accepting_env_def)
  have en: "messagingEnabled (config ?svc)"
    by (simp add: new_service_def config_without_accounts_def test_config_def)
  have st: "state (circuitBreaker ?svc) \<noteq> OPEN" by (simp add: new_service_ready)
  have acc: "list_all (downstream_accepts accepting_env (config ?svc) test_deal) all_roles"
    by (simp add: list_all_iff accepting_env_accepts)
  obtain new where new:
      "fst (fst (send_to_roles accepting_env test_deal
                   (map (\<lambda>r. (r, recipients (config ?svc) r)) all_roles)
                   (([], []), ?svc, world_at 1000))) = [] @ new"
      "map role new = all_roles"
      "map success new = map (deliverable accepting_env (config ?svc) test_deal) all_roles"
    using run_accepted [OF h1 en st acc, of "[]" "[]" "world_at 1000"] by blast
  have res: "results ?R = new"
    using new(1) by (simp add: sendDealNotifications_results(1))
  have flags: "map success new = [False, True, True, True]"
    using new(3) by (simp add: new_service_ready(2) without_accounts_deliverable)
  have "successCount ?R = 3"
    using counts_of_flags(1) [OF flags] by (simp add: sendDealNotifications_results(2) res)
  moreover have "failureCount ?R = 1"
    using counts_of_flags(2) [OF flags] by (simp add: sendDealNotifications_results(3) res)
  moreover have "recipients config_without_accounts accounts = []"
    by (simp add: config_without_accounts_def)
  ultimately show ?thesis
    using flags new(2) by (simp add: res all_roles_def)
qed

section \<open>Properties of sendMessage\<close>










end
